theory Spec2Isabelle
  imports Main
begin

section \<open>The Credential Record (src/models/User.js)\<close>

text \<open>
  The record follows the fields of \<open>userSchema\<close> in the order the schema declares
  them. A path without a default and without \<open>required\<close> may be absent in a stored
  document, so it is an \<open>option\<close>; a path with a default or with \<open>required\<close> always
  has a value. A \<open>Date\<close> is its number of milliseconds since the epoch, the value
  \<open>Date.now()\<close> returns and the one the comparisons of the source read. A \<open>Number\<close>
  is an integer. The schema option \<open>timestamps: true\<close> adds the paths \<open>createdAt\<close>
  and \<open>updatedAt\<close>, which mongoose writes itself; they are absent only in a document
  that has not been saved yet. The identifier \<open>_id\<close> is the key of the store.

  The four paths that the profile route assigns keep \<open>null\<close> apart from absent: the
  route can store \<open>null\<close>, and mongoose counts the assignment of \<open>null\<close> to an absent
  path as a modification. For the other optional paths \<open>None\<close> is a path without a
  value.
\<close>

type_synonym date = int

datatype user_role = Role_user | Role_admin | Role_researcher

datatype 'a path_value = Absent | IsNull | Value 'a

record user =
  username :: string
  email :: string
  password :: string
  firstName :: "string path_value"
  lastName :: "string path_value"
  role :: user_role
  isActive :: bool
  emailVerified :: bool
  verificationToken :: "string option"
  resetPasswordToken :: "string option"
  resetPasswordExpires :: "date option"
  otpCode :: "string option"
  otpExpires :: "date option"
  lastLogin :: "date option"
  loginAttempts :: int
  loginCount :: int
  lockUntil :: "date option"
  organization :: "string path_value"
  country :: "string path_value"
  accessCount :: int
  lastAccessIp :: "string option"
  createdAt :: "date option"
  updatedAt :: "date option"

subsection \<open>The lockout policy\<close>

text \<open>
  \<open>isLocked\<close> is the virtual getter \<open>!!(this.lockUntil && this.lockUntil > Date.now())\<close>.
  A \<open>Date\<close> object is truthy whatever its value, so the first conjunct says that the
  path is set.
\<close>

definition isLocked :: "user \<Rightarrow> date \<Rightarrow> bool" where
  "isLocked this now = (case lockUntil this of None \<Rightarrow> False | Some l \<Rightarrow> l > now)"

text \<open>
  The methods of the schema do not write to the document they are called on: they build
  an update document and hand it to \<open>this.updateOne\<close>, which the store applies to the
  stored record. An update document of this model has one slot for each operator and
  path that the source writes: \<open>$set\<close> on \<open>loginAttempts\<close>, \<open>lastLogin\<close> and
  \<open>lockUntil\<close>, \<open>$unset\<close> on \<open>lockUntil\<close>, \<open>$inc\<close> on \<open>loginAttempts\<close> and
  \<open>accessCount\<close>. An empty slot (\<open>None\<close>, \<open>False\<close>) is an operator the document
  does not have.
\<close>

record update_doc =
  set_loginAttempts :: "int option"
  set_lastLogin :: "date option"
  set_lockUntil :: "date option"
  unset_lockUntil :: bool
  inc_loginAttempts :: "int option"
  inc_accessCount :: "int option"

definition no_update :: update_doc where
  "no_update = \<lparr>set_loginAttempts = None, set_lastLogin = None, set_lockUntil = None,
     unset_lockUntil = False, inc_loginAttempts = None, inc_accessCount = None\<rparr>"

definition maxAttempts :: int where
  "maxAttempts = 5"

definition lockTime :: int where
  "lockTime = 2 * 60 * 60 * 1000"

text \<open>
  \<open>incLoginAttempts\<close>: \<open>this\<close> is the document the caller holds, \<open>now\<close> the value of
  \<open>Date.now()\<close>. The method is synchronous up to its call of \<open>updateOne\<close>, and its
  reads of the clock are one instant here.
\<close>

definition incLoginAttempts :: "user \<Rightarrow> date \<Rightarrow> update_doc" where
  "incLoginAttempts this now =
     (if (case lockUntil this of None \<Rightarrow> False | Some l \<Rightarrow> l < now)
      then no_update\<lparr>set_loginAttempts := Some 1, unset_lockUntil := True\<rparr>
      else
        let updates = no_update\<lparr>inc_loginAttempts := Some 1\<rparr> in
        if loginAttempts this + 1 \<ge> maxAttempts \<and> \<not> isLocked this now
        then updates\<lparr>set_lockUntil := Some (now + lockTime)\<rparr>
        else updates)"

definition resetLoginAttempts :: "date \<Rightarrow> update_doc" where
  "resetLoginAttempts now =
     no_update\<lparr>set_loginAttempts := Some 0, set_lastLogin := Some now,
       unset_lockUntil := True, inc_accessCount := Some 1\<rparr>"

text \<open>
  \<open>updateOne\<close> is the store's side of \<open>this.updateOne(update)\<close>: the operators are
  applied to the record that is stored at that moment, \<open>$inc\<close> adding to the stored
  number. No update document of the source names one path under two operators, so the
  order in which the operators are applied here does not show. With \<open>timestamps: true\<close>
  mongoose adds \<open>$set: {updatedAt: at}\<close> to every update it sends, \<open>at\<close> being the
  time at which it sends it.
\<close>

definition updateOne :: "update_doc \<Rightarrow> date \<Rightarrow> user \<Rightarrow> user" where
  "updateOne u at stored =
     (let s1 = (case set_loginAttempts u of None \<Rightarrow> stored
                | Some v \<Rightarrow> stored\<lparr>loginAttempts := v\<rparr>);
          s2 = (case set_lastLogin u of None \<Rightarrow> s1 | Some v \<Rightarrow> s1\<lparr>lastLogin := Some v\<rparr>);
          s3 = (case set_lockUntil u of None \<Rightarrow> s2 | Some v \<Rightarrow> s2\<lparr>lockUntil := Some v\<rparr>);
          s4 = (if unset_lockUntil u then s3\<lparr>lockUntil := None\<rparr> else s3);
          s5 = (case inc_loginAttempts u of None \<Rightarrow> s4
                | Some n \<Rightarrow> s4\<lparr>loginAttempts := loginAttempts s4 + n\<rparr>);
          s6 = (case inc_accessCount u of None \<Rightarrow> s5
                | Some n \<Rightarrow> s5\<lparr>accessCount := accessCount s5 + n\<rparr>)
      in s6\<lparr>updatedAt := Some at\<rparr>)"

text \<open>
  One application of the failure branch to a stored record, with no other request in
  between: the document is read, \<open>incLoginAttempts\<close> builds its update from what was
  read, and the store applies the update to the same record, all at the instant
  \<open>now\<close>.
\<close>

definition failedLogin :: "date \<Rightarrow> user \<Rightarrow> user" where
  "failedLogin now stored = updateOne (incLoginAttempts stored now) now stored"

subsection \<open>Password hashing and verification\<close>

text \<open>
  \<open>bcryptjs\<close> is a library, not code of this repository: its three functions are
  parameters. Each returns its value (\<open>Inr\<close>) or rejects with an error (\<open>Inl\<close>), which
  is what \<open>await\<close> turns into an exception. \<open>genSalt\<close> takes the cost factor.
\<close>

datatype error = Error string | ValidationError

record bcrypt =
  bcrypt_genSalt :: "nat \<Rightarrow> error + string"
  bcrypt_hash :: "string \<Rightarrow> string \<Rightarrow> error + string"
  bcrypt_compare :: "string \<Rightarrow> string \<Rightarrow> error + bool"

text \<open>
  A mongoose document is the record together with what mongoose tracks about it:
  whether the document is new (built in memory and not saved yet), the paths that were
  assigned a new value since the document was loaded or created, which \<open>isModified\<close>
  reads, and the paths whose assigned value could not be cast to the type of the path.
\<close>

record document =
  obj :: user
  isNew :: bool
  modifiedPaths :: "string list"
  invalidated :: "string list"

definition isModified :: "string \<Rightarrow> document \<Rightarrow> bool" where
  "isModified path this = (path \<in> set (modifiedPaths this))"

text \<open>
  The \<open>pre('save')\<close> hook. \<open>next()\<close> is \<open>Inr\<close> with the document as the hook leaves
  it, \<open>next(error)\<close> is \<open>Inl\<close>.
\<close>

definition preSave :: "bcrypt \<Rightarrow> document \<Rightarrow> error + document" where
  "preSave lib this =
     (if \<not> isModified ''password'' this then Inr this
      else
        (case bcrypt_genSalt lib 10 of
           Inl e \<Rightarrow> Inl e
         | Inr salt \<Rightarrow>
             (case bcrypt_hash lib (password (obj this)) salt of
                Inl e \<Rightarrow> Inl e
              | Inr h \<Rightarrow> Inr (this\<lparr>obj := (obj this)\<lparr>password := h\<rparr>\<rparr>))))"

definition comparePassword :: "bcrypt \<Rightarrow> user \<Rightarrow> string \<Rightarrow> error + bool" where
  "comparePassword lib this candidatePassword =
     (case bcrypt_compare lib candidatePassword (password this) of
        Inr b \<Rightarrow> Inr b
      | Inl e \<Rightarrow> Inl (Error ''Erreur lors de la comparaison des mots de passe''))"

subsection \<open>The public projection\<close>

text \<open>
  \<open>toObject\<close> gives the plain object of a document: one property for each path that
  is not absent, in the order of the schema. \<open>delete\<close> removes a property by its key.
\<close>

datatype jsval = JNull | JString string | JNumber int | JBoolean bool | JDate date

type_synonym jsobject = "(string \<times> jsval) list"

definition property :: "string \<Rightarrow> ('a \<Rightarrow> jsval) \<Rightarrow> 'a option \<Rightarrow> jsobject" where
  "property key f v = (case v of None \<Rightarrow> [] | Some x \<Rightarrow> [(key, f x)])"

definition path_property :: "string \<Rightarrow> string path_value \<Rightarrow> jsobject" where
  "path_property key v =
     (case v of Absent \<Rightarrow> [] | IsNull \<Rightarrow> [(key, JNull)] | Value s \<Rightarrow> [(key, JString s)])"

definition role_name :: "user_role \<Rightarrow> string" where
  "role_name r = (case r of Role_user \<Rightarrow> ''user'' | Role_admin \<Rightarrow> ''admin''
     | Role_researcher \<Rightarrow> ''researcher'')"

definition toObject :: "user \<Rightarrow> jsobject" where
  "toObject this =
     [(''username'', JString (username this)),
      (''email'', JString (email this)),
      (''password'', JString (password this))]
     @ path_property ''firstName'' (firstName this)
     @ path_property ''lastName'' (lastName this)
     @ [(''role'', JString (role_name (role this))),
        (''isActive'', JBoolean (isActive this)),
        (''emailVerified'', JBoolean (emailVerified this))]
     @ property ''verificationToken'' JString (verificationToken this)
     @ property ''resetPasswordToken'' JString (resetPasswordToken this)
     @ property ''resetPasswordExpires'' JDate (resetPasswordExpires this)
     @ property ''otpCode'' JString (otpCode this)
     @ property ''otpExpires'' JDate (otpExpires this)
     @ property ''lastLogin'' JDate (lastLogin this)
     @ [(''loginAttempts'', JNumber (loginAttempts this)),
        (''loginCount'', JNumber (loginCount this))]
     @ property ''lockUntil'' JDate (lockUntil this)
     @ path_property ''organization'' (organization this)
     @ path_property ''country'' (country this)
     @ [(''accessCount'', JNumber (accessCount this))]
     @ property ''lastAccessIp'' JString (lastAccessIp this)
     @ property ''createdAt'' JDate (createdAt this)
     @ property ''updatedAt'' JDate (updatedAt this)"

definition delete :: "string \<Rightarrow> jsobject \<Rightarrow> jsobject" where
  "delete key object = filter (\<lambda>kv. fst kv \<noteq> key) object"

definition keys :: "jsobject \<Rightarrow> string list" where
  "keys object = map fst object"

definition toJSON :: "user \<Rightarrow> jsobject" where
  "toJSON this =
     (let user = toObject this;
          user = delete ''password'' user;
          user = delete ''verificationToken'' user;
          user = delete ''resetPasswordToken'' user;
          user = delete ''resetPasswordExpires'' user;
          user = delete ''loginAttempts'' user;
          user = delete ''lockUntil'' user
      in user)"

subsection \<open>Saving a document\<close>

text \<open>
  The setter \<open>trim: true\<close> is \<open>String.prototype.trim\<close>. A \<open>char\<close> is one code unit
  below 256; the white space and line terminators in that range are tab, line feed,
  vertical tab, form feed, carriage return, space and the no-break space.
\<close>

definition isWhiteSpace :: "char \<Rightarrow> bool" where
  "isWhiteSpace c =
     (c \<in> set [CHR 0x09, CHR 0x0A, CHR 0x0B, CHR 0x0C, CHR 0x0D, CHR 0x20, CHR 0xA0])"

definition trim :: "string \<Rightarrow> string" where
  "trim s = rev (dropWhile isWhiteSpace (rev (dropWhile isWhiteSpace s)))"

text \<open>
  The validators of the schema. \<open>match_email\<close> is the pattern \<open>/^\S+@\S+\.\S+$/\<close>: no
  white space anywhere, an \<open>@\<close> after at least one character, and after it a dot with
  at least one character on each side. \<open>required\<close> refuses the empty string, which
  \<open>minlength\<close> refuses as well for \<open>username\<close> and \<open>password\<close>; the \<open>enum\<close> of
  \<open>role\<close> is the type \<open>user_role\<close>.
\<close>

definition match_email :: "string \<Rightarrow> bool" where
  "match_email s =
     (list_all (\<lambda>c. \<not> isWhiteSpace c) s \<and>
      list_ex (\<lambda>i. s ! i = CHR ''@'' \<and>
                 list_ex (\<lambda>j. s ! j = CHR ''.'') [i + 2 ..< length s - 1])
        [1 ..< length s])"

definition maxlength :: "nat \<Rightarrow> string path_value \<Rightarrow> bool" where
  "maxlength n v = (case v of Value s \<Rightarrow> length s \<le> n | _ \<Rightarrow> True)"

definition validate :: "user \<Rightarrow> bool" where
  "validate this =
     (3 \<le> length (username this) \<and> length (username this) \<le> 50 \<and>
      email this \<noteq> [] \<and> match_email (email this) \<and>
      6 \<le> length (password this) \<and>
      maxlength 50 (firstName this) \<and>
      maxlength 50 (lastName this))"

text \<open>
  The values of a JSON request body. The handler never computes with a number, so the
  type of numbers is left open.
\<close>

datatype 'n json =
  J_null | J_boolean bool | J_number 'n | J_string string
  | J_array "'n json list" | J_object "(string \<times> 'n json) list"

text \<open>
  An assignment \<open>user.path = value\<close> to a String path with \<open>trim: true\<close> first runs
  the setter and the cast of the path. \<open>null\<close> stays \<open>null\<close> and a string is trimmed.
  What mongoose's cast makes of any other value (a boolean, a number, an array, an
  object) is the parameter \<open>cast\<close>: a string, which is then trimmed, or \<open>None\<close> when
  the cast fails with a \<open>CastError\<close>.
\<close>

definition applySetters ::
  "('n json \<Rightarrow> string option) \<Rightarrow> 'n json \<Rightarrow> string path_value option" where
  "applySetters cast v =
     (case v of
        J_null \<Rightarrow> Some IsNull
      | J_string s \<Rightarrow> Some (Value (trim s))
      | _ \<Rightarrow> (case cast v of None \<Rightarrow> None | Some s \<Rightarrow> Some (Value (trim s))))"

text \<open>
  The assignment then stores the value and marks the path modified when the document
  is new, the path is modified already, or the value differs from the one the document
  holds. A value that could not be cast is not stored: the path is recorded as invalid,
  which makes the next validation fail.
\<close>

definition markModified :: "string \<Rightarrow> document \<Rightarrow> document" where
  "markModified path this = this\<lparr>modifiedPaths := path # modifiedPaths this\<rparr>"

definition invalidatePath :: "string \<Rightarrow> document \<Rightarrow> document" where
  "invalidatePath path this = this\<lparr>invalidated := path # invalidated this\<rparr>"

definition assign_firstName :: "string path_value option \<Rightarrow> document \<Rightarrow> document" where
  "assign_firstName v this =
     (case v of
        None \<Rightarrow> invalidatePath ''firstName'' this
      | Some x \<Rightarrow>
          if isNew this \<or> isModified ''firstName'' this \<or> firstName (obj this) \<noteq> x
          then markModified ''firstName'' (this\<lparr>obj := (obj this)\<lparr>firstName := x\<rparr>\<rparr>)
          else this)"

definition assign_lastName :: "string path_value option \<Rightarrow> document \<Rightarrow> document" where
  "assign_lastName v this =
     (case v of
        None \<Rightarrow> invalidatePath ''lastName'' this
      | Some x \<Rightarrow>
          if isNew this \<or> isModified ''lastName'' this \<or> lastName (obj this) \<noteq> x
          then markModified ''lastName'' (this\<lparr>obj := (obj this)\<lparr>lastName := x\<rparr>\<rparr>)
          else this)"

definition assign_organization :: "string path_value option \<Rightarrow> document \<Rightarrow> document" where
  "assign_organization v this =
     (case v of
        None \<Rightarrow> invalidatePath ''organization'' this
      | Some x \<Rightarrow>
          if isNew this \<or> isModified ''organization'' this \<or> organization (obj this) \<noteq> x
          then markModified ''organization'' (this\<lparr>obj := (obj this)\<lparr>organization := x\<rparr>\<rparr>)
          else this)"

definition assign_country :: "string path_value option \<Rightarrow> document \<Rightarrow> document" where
  "assign_country v this =
     (case v of
        None \<Rightarrow> invalidatePath ''country'' this
      | Some x \<Rightarrow>
          if isNew this \<or> isModified ''country'' this \<or> country (obj this) \<noteq> x
          then markModified ''country'' (this\<lparr>obj := (obj this)\<lparr>country := x\<rparr>\<rparr>)
          else this)"

definition assign_isActive :: "bool \<Rightarrow> document \<Rightarrow> document" where
  "assign_isActive v this =
     (if isNew this \<or> isModified ''isActive'' this \<or> isActive (obj this) \<noteq> v
      then markModified ''isActive'' (this\<lparr>obj := (obj this)\<lparr>isActive := v\<rparr>\<rparr>)
      else this)"

text \<open>
  The \<open>pre('save')\<close> hook that \<open>timestamps: true\<close> installs. A new document gets
  \<open>createdAt\<close> unless it has one. \<open>updatedAt\<close> is written when the document is new
  or has a modified path: for a new document it is the value of \<open>createdAt\<close>, for a
  loaded one the current time.
\<close>

definition timestampsPreSave :: "date \<Rightarrow> document \<Rightarrow> document" where
  "timestampsPreSave now this =
     (let this =
            (if isNew this \<and> createdAt (obj this) = None
             then markModified ''createdAt'' (this\<lparr>obj := (obj this)\<lparr>createdAt := Some now\<rparr>\<rparr>)
             else this)
      in if isNew this \<or> modifiedPaths this \<noteq> []
         then markModified ''updatedAt''
                (this\<lparr>obj := (obj this)\<lparr>updatedAt :=
                          (if isNew this then createdAt (obj this) else Some now)\<rparr>\<rparr>)
         else this)"

text \<open>
  \<open>save\<close>: mongoose validates the document, then runs the \<open>pre('save')\<close> hooks in
  the order of their registration, the one of the timestamps before the one of the
  schema, then writes the document. The result is the record to write, or the error
  that rejects the save, in which case nothing is written. A loaded document without
  a modified path is written back as it is.
\<close>

definition save :: "bcrypt \<Rightarrow> date \<Rightarrow> document \<Rightarrow> error + user" where
  "save lib now this =
     (if invalidated this \<noteq> [] \<or> \<not> validate (obj this) then Inl ValidationError
      else (case preSave lib (timestampsPreSave now this) of
              Inl e \<Rightarrow> Inl e
            | Inr saved \<Rightarrow> Inr (obj saved)))"

section \<open>The profile routes (src/routes/users.js)\<close>

text \<open>
  The store maps the identifier of a user to the stored record. \<open>findById\<close> loads a
  document that is not new and has no modified path. \<open>req.userId\<close> is set by the
  \<open>authenticate\<close> middleware before the handler runs. \<open>req.body\<close> is the object that
  \<open>express.json()\<close> parsed: each of the four properties the handler reads is absent
  (\<open>undefined\<close>, here \<open>None\<close>) or any JSON value. \<open>now\<close> is the time of the save. A
  response is its status, its \<open>success\<close> flag and the \<open>user\<close> it carries, which
  \<open>res.json\<close> serialises with \<open>toJSON\<close>; the texts of the messages are left out.
\<close>

type_synonym user_store = "nat \<rightharpoonup> user"

record 'n profile_body =
  body_firstName :: "'n json option"
  body_lastName :: "'n json option"
  body_organization :: "'n json option"
  body_country :: "'n json option"

datatype response = Response (status: nat) (success: bool) (payload: "jsobject option")

definition findById :: "user_store \<Rightarrow> nat \<Rightarrow> document option" where
  "findById store userId =
     (case store userId of None \<Rightarrow> None
      | Some u \<Rightarrow> Some \<lparr>obj = u, isNew = False, modifiedPaths = [], invalidated = []\<rparr>)"

definition putProfile ::
  "bcrypt \<Rightarrow> ('n json \<Rightarrow> string option) \<Rightarrow> date \<Rightarrow> user_store \<Rightarrow> nat \<Rightarrow> 'n profile_body
     \<Rightarrow> response \<times> user_store" where
  "putProfile lib cast now store userId body =
     (case findById store userId of
        None \<Rightarrow> (Response 404 False None, store)
      | Some user \<Rightarrow>
          (let user = (case body_firstName body of None \<Rightarrow> user
                       | Some v \<Rightarrow> assign_firstName (applySetters cast v) user);
               user = (case body_lastName body of None \<Rightarrow> user
                       | Some v \<Rightarrow> assign_lastName (applySetters cast v) user);
               user = (case body_organization body of None \<Rightarrow> user
                       | Some v \<Rightarrow> assign_organization (applySetters cast v) user);
               user = (case body_country body of None \<Rightarrow> user
                       | Some v \<Rightarrow> assign_country (applySetters cast v) user)
           in (case save lib now user of
                 Inl e \<Rightarrow> (Response 500 False None, store)
               | Inr saved \<Rightarrow>
                   (Response 200 True (Some (toJSON saved)), store(userId \<mapsto> saved)))))"

definition deleteProfile ::
  "bcrypt \<Rightarrow> date \<Rightarrow> user_store \<Rightarrow> nat \<Rightarrow> response \<times> user_store" where
  "deleteProfile lib now store userId =
     (case findById store userId of
        None \<Rightarrow> (Response 404 False None, store)
      | Some user \<Rightarrow>
          (let user = assign_isActive False user
           in (case save lib now user of
                 Inl e \<Rightarrow> (Response 500 False None, store)
               | Inr saved \<Rightarrow> (Response 200 True None, store(userId \<mapsto> saved)))))"

section \<open>The Session Store (src/models/Session.js)\<close>

text \<open>
  The Session Record follows \<open>sessionSchema\<close>. The collection is the list of the
  stored records.
\<close>

record session =
  userId :: nat
  refreshToken :: string
  ipAddress :: string
  userAgent :: "string option"
  isValid :: bool
  expiresAt :: date

datatype store_error = Conflict

text \<open>
  Modelled from the spec: the operations of the Session Store are in
  \<open>controllers/authController.js\<close>, which is not among the sources, and the unique index
  that \<open>unique: true\<close> on \<open>refreshToken\<close> asks for is kept by the persistence engine.
  \<open>create\<close> follows sections 4.4 and 6 of the spec: refresh-token values are enforced
  unique at creation, and a collision raises a conflict instead of overwriting.
\<close>

definition create :: "session list \<Rightarrow> session \<Rightarrow> store_error + session list" where
  "create store s =
     (if refreshToken s \<in> set (map refreshToken store) then Inl Conflict
      else Inr (store @ [s]))"

text \<open>
  Modelled from the spec: \<open>invalidate\<close> flags the record at a position of the
  collection, \<open>invalidateAll\<close> the records of one user (section 4.4), and
  \<open>removeExpired\<close> is the removal of the records whose \<open>expiresAt\<close> has passed, which
  the index \<open>expires: 0\<close> of the schema asks the persistence engine for (section 6).
\<close>

definition invalidate :: "nat \<Rightarrow> session list \<Rightarrow> session list" where
  "invalidate i store =
     (if i < length store then store[i := (store ! i)\<lparr>isValid := False\<rparr>] else store)"

definition invalidateAll :: "nat \<Rightarrow> session list \<Rightarrow> session list" where
  "invalidateAll uid store =
     map (\<lambda>s. if userId s = uid then s\<lparr>isValid := False\<rparr> else s) store"

definition removeExpired :: "date \<Rightarrow> session list \<Rightarrow> session list" where
  "removeExpired now store = filter (\<lambda>s. expiresAt s > now) store"

text \<open>
  Modelled from the spec: the states of the Session Store are those that a sequence of
  these operations reaches from the empty collection. A \<open>create\<close> that raises the
  conflict leaves the collection as it was.
\<close>

datatype session_op =
  Create session | Invalidate nat | InvalidateAll nat | RemoveExpired date

definition step :: "session list \<Rightarrow> session_op \<Rightarrow> session list" where
  "step store op =
     (case op of
        Create s \<Rightarrow> (case create store s of Inl e \<Rightarrow> store | Inr store' \<Rightarrow> store')
      | Invalidate i \<Rightarrow> invalidate i store
      | InvalidateAll uid \<Rightarrow> invalidateAll uid store
      | RemoveExpired now \<Rightarrow> removeExpired now store)"

definition run :: "session_op list \<Rightarrow> session list" where
  "run ops = foldl step [] ops"

section \<open>Concrete inputs\<close>

text \<open>
  The records and the library instance below are the inputs at which the theorems are
  run. \<open>alice\<close> is a record as registration leaves it. \<open>toy_bcrypt\<close> stands in for the
  library where a definition has to be evaluated: its hash is the salt followed by the
  plaintext, and its comparison answers \<open>false\<close> for a stored value that is not 60
  characters long and rejects one of 60 characters that does not start like a bcrypt
  hash, which is how \<open>bcryptjs\<close> treats such values. \<open>toy_cast\<close> stands in for
  the cast of mongoose in the same way. Nothing about the libraries is derived from
  them.
\<close>

definition alice :: user where
  "alice =
     \<lparr>username = ''alice'', email = ''alice@x.com'',
      password = ''$2a$10$N9qo8uLOickgx2ZMRZoMyeIjZAgcfl7p92ldGxad68LJZdL17lhWy'',
      firstName = Value ''Alice'', lastName = Absent, role = Role_user, isActive = True,
      emailVerified = False, verificationToken = None, resetPasswordToken = None,
      resetPasswordExpires = None, otpCode = None, otpExpires = None, lastLogin = None,
      loginAttempts = 0, loginCount = 0, lockUntil = None, organization = Absent,
      country = Absent, accessCount = 0, lastAccessIp = None, createdAt = Some 100,
      updatedAt = Some 100\<rparr>"

definition toy_bcrypt :: bcrypt where
  "toy_bcrypt =
     \<lparr>bcrypt_genSalt = (\<lambda>rounds. Inr ''$2a$10$N9qo8uLOickgx2ZMRZoMye''),
      bcrypt_hash = (\<lambda>s salt. Inr (salt @ s)),
      bcrypt_compare = (\<lambda>s h.
        if length h \<noteq> 60 then Inr False
        else if take 2 h \<noteq> ''$2'' then Inl (Error ''Invalid salt version'')
        else Inr (h = take 29 h @ s))\<rparr>"

definition malformed_hash :: string where
  "malformed_hash = replicate 60 (CHR ''x'')"

definition expired_lock :: user where
  "expired_lock = alice\<lparr>loginAttempts := 5, lockUntil := Some 500\<rparr>"

definition otp_user :: user where
  "otp_user = alice\<lparr>otpCode := Some ''123456'', otpExpires := Some 600000\<rparr>"

definition new_password :: document where
  "new_password =
     \<lparr>obj = alice\<lparr>password := ''Passw0rd''\<rparr>, isNew = False,
      modifiedPaths = [''password''], invalidated = []\<rparr>"

definition new_name :: "int profile_body" where
  "new_name = \<lparr>body_firstName = Some (J_string ''  Alicia ''), body_lastName = Some J_null,
     body_organization = None, body_country = None\<rparr>"

definition toy_cast :: "int json \<Rightarrow> string option" where
  "toy_cast v = (case v of J_boolean b \<Rightarrow> Some (if b then ''true'' else ''false'')
                 | _ \<Rightarrow> None)"

definition session1 :: session where
  "session1 = \<lparr>userId = 1, refreshToken = ''R1'', ipAddress = ''10.0.0.1'',
     userAgent = None, isValid = True, expiresAt = 5000\<rparr>"

section \<open>Properties of the lockout policy\<close>

lemma failedLogin_fields:
  "loginAttempts (failedLogin now u) =
     (if (case lockUntil u of None \<Rightarrow> False | Some l \<Rightarrow> l < now) then 1
      else loginAttempts u + 1)"
  "lockUntil (failedLogin now u) =
     (if (case lockUntil u of None \<Rightarrow> False | Some l \<Rightarrow> l < now) then None
      else if loginAttempts u + 1 \<ge> 5 \<and> \<not> isLocked u now then Some (now + 7200000)
      else lockUntil u)"
  by (simp_all add: failedLogin_def incLoginAttempts_def updateOne_def no_update_def
      maxAttempts_def lockTime_def Let_def)

lemma failedLogin_below_max:
  "lockUntil u = None \<Longrightarrow> loginAttempts u + 1 < 5 \<Longrightarrow>
   lockUntil (failedLogin t u) = None \<and> loginAttempts (failedLogin t u) = loginAttempts u + 1"
  by (simp add: failedLogin_fields)

lemma failedLogin_expired:
  "lockUntil u = Some l \<Longrightarrow> l < now \<Longrightarrow>
   failedLogin now u = u\<lparr>loginAttempts := 1, lockUntil := None, updatedAt := Some now\<rparr>"
  by (simp add: failedLogin_def incLoginAttempts_def updateOne_def no_update_def)

lemma incLoginAttempts_not_expired:
  "\<not> (case lockUntil u of None \<Rightarrow> False | Some l \<Rightarrow> l < now) \<Longrightarrow>
   incLoginAttempts u now =
     no_update\<lparr>inc_loginAttempts := Some 1,
       set_lockUntil := (if 5 \<le> loginAttempts u + 1 \<and> \<not> isLocked u now
                         then Some (now + 2 * 60 * 60 * 1000) else None)\<rparr>"
  by (simp add: incLoginAttempts_def no_update_def maxAttempts_def lockTime_def Let_def)

lemma failedLogin_not_expired:
  assumes "\<not> (case lockUntil u of None \<Rightarrow> False | Some l \<Rightarrow> l < now)"
  shows "failedLogin now u =
     u\<lparr>loginAttempts := loginAttempts u + 1,
       lockUntil := (if 5 \<le> loginAttempts u + 1 \<and> \<not> isLocked u now
                     then Some (now + 2 * 60 * 60 * 1000) else lockUntil u),
       updatedAt := Some now\<rparr>"
  unfolding failedLogin_def incLoginAttempts_not_expired [OF assms]
  by (simp add: updateOne_def no_update_def)

text \<open>
  C1. A record starts unlocked, which in the data model is \<open>lockUntil\<close> absent, with
  \<open>loginAttempts = 0\<close>. The failure branch is applied to it five times in a row, at
  the instants \<open>t1\<close>, \<open>t2\<close>, \<open>t3\<close>, \<open>t4\<close> and \<open>t\<close>. Then \<open>lockUntil\<close> is \<open>t\<close> plus two
  hours, and \<open>isLocked\<close> of the resulting record is true at every instant before
  \<open>lockUntil\<close> and false at every instant from \<open>lockUntil\<close> on.
\<close>

theorem five_failures_lock:
  assumes "lockUntil u = None" and "loginAttempts u = 0"
  shows "lockUntil (failedLogin t (failedLogin t4 (failedLogin t3 (failedLogin t2
           (failedLogin t1 u))))) = Some (t + 2 * 60 * 60 * 1000)
     \<and> (\<forall>now. isLocked (failedLogin t (failedLogin t4 (failedLogin t3 (failedLogin t2
           (failedLogin t1 u))))) now = (now < t + 2 * 60 * 60 * 1000))"
proof -
  define u1 where "u1 = failedLogin t1 u"
  define u2 where "u2 = failedLogin t2 u1"
  define u3 where "u3 = failedLogin t3 u2"
  define u4 where "u4 = failedLogin t4 u3"
  define u5 where "u5 = failedLogin t u4"
  have 1: "lockUntil u1 = None \<and> loginAttempts u1 = 1"
    using assms failedLogin_below_max [of u t1] by (simp add: u1_def)
  have 2: "lockUntil u2 = None \<and> loginAttempts u2 = 2"
    using 1 failedLogin_below_max [of u1 t2] by (simp add: u2_def)
  have 3: "lockUntil u3 = None \<and> loginAttempts u3 = 3"
    using 2 failedLogin_below_max [of u2 t3] by (simp add: u3_def)
  have 4: "lockUntil u4 = None \<and> loginAttempts u4 = 4"
    using 3 failedLogin_below_max [of u3 t4] by (simp add: u4_def)
  have 5: "lockUntil u5 = Some (t + 2 * 60 * 60 * 1000)"
    using 4 by (simp add: u5_def failedLogin_fields isLocked_def)
  then have "\<forall>now. isLocked u5 now = (now < t + 2 * 60 * 60 * 1000)"
    by (simp add: isLocked_def)
  with 5 show ?thesis
    by (simp add: u1_def u2_def u3_def u4_def u5_def)
qed

theorem five_failures_lock_witness:
  "lockUntil alice = None \<and> loginAttempts alice = 0 \<and>
   lockUntil (failedLogin 5000 (failedLogin 4000 (failedLogin 3000 (failedLogin 2000
     (failedLogin 1000 alice))))) = Some 7205000 \<and>
   isLocked (failedLogin 5000 (failedLogin 4000 (failedLogin 3000 (failedLogin 2000
     (failedLogin 1000 alice))))) 7204999 \<and>
   \<not> isLocked (failedLogin 5000 (failedLogin 4000 (failedLogin 3000 (failedLogin 2000
     (failedLogin 1000 alice))))) 7205000"
proof -
  have a: "lockUntil alice = None" and b: "loginAttempts alice = 0"
    by (simp_all add: alice_def)
  show ?thesis
    using five_failures_lock [OF a b, of 5000 4000 3000 2000 1000] a b by simp
qed

text \<open>
  C2. One application of the failure branch to a record at the instant \<open>now\<close>. When
  \<open>lockUntil\<close> is set and lies before \<open>now\<close>, \<open>loginAttempts\<close> becomes 1 and
  \<open>lockUntil\<close> is cleared. Otherwise \<open>loginAttempts\<close> grows by 1, and the update sets
  \<open>lockUntil\<close> to \<open>now\<close> plus two hours exactly when the incremented count has reached
  5 (is at least 5, the test \<open>>=\<close> of the source) and the record is not locked at
  \<open>now\<close>; in the other case the update does not write \<open>lockUntil\<close>. Beside these
  two fields only the timestamp \<open>updatedAt\<close> changes, which mongoose sets on every update.
\<close>

theorem incLoginAttempts_effect:
  "(\<forall>l. lockUntil u = Some l \<and> l < now \<longrightarrow>
      failedLogin now u =
        u\<lparr>loginAttempts := 1, lockUntil := None, updatedAt := Some now\<rparr>) \<and>
   (lockUntil u = None \<or> (\<exists>l. lockUntil u = Some l \<and> now \<le> l) \<longrightarrow>
      failedLogin now u =
        u\<lparr>loginAttempts := loginAttempts u + 1,
          lockUntil := (if 5 \<le> loginAttempts u + 1 \<and> \<not> isLocked u now
                        then Some (now + 2 * 60 * 60 * 1000) else lockUntil u),
          updatedAt := Some now\<rparr> \<and>
      set_lockUntil (incLoginAttempts u now) =
        (if 5 \<le> loginAttempts u + 1 \<and> \<not> isLocked u now
         then Some (now + 2 * 60 * 60 * 1000) else None))"
proof (intro conjI allI impI)
  fix l assume "lockUntil u = Some l \<and> l < now"
  then show "failedLogin now u =
        u\<lparr>loginAttempts := 1, lockUntil := None, updatedAt := Some now\<rparr>"
    by (simp add: failedLogin_expired)
next
  assume "lockUntil u = None \<or> (\<exists>l. lockUntil u = Some l \<and> now \<le> l)"
  then have ne: "\<not> (case lockUntil u of None \<Rightarrow> False | Some l \<Rightarrow> l < now)"
    by (cases "lockUntil u") auto
  show "failedLogin now u =
        u\<lparr>loginAttempts := loginAttempts u + 1,
          lockUntil := (if 5 \<le> loginAttempts u + 1 \<and> \<not> isLocked u now
                        then Some (now + 2 * 60 * 60 * 1000) else lockUntil u),
          updatedAt := Some now\<rparr>"
    by (rule failedLogin_not_expired [OF ne])
  show "set_lockUntil (incLoginAttempts u now) =
        (if 5 \<le> loginAttempts u + 1 \<and> \<not> isLocked u now
         then Some (now + 2 * 60 * 60 * 1000) else None)"
    by (simp add: incLoginAttempts_not_expired [OF ne])
qed

theorem incLoginAttempts_effect_witness:
  "failedLogin 1000 (alice\<lparr>loginAttempts := 5, lockUntil := Some 500\<rparr>)
     = alice\<lparr>loginAttempts := 1, lockUntil := None, updatedAt := Some 1000\<rparr> \<and>
   failedLogin 1000 (alice\<lparr>loginAttempts := 4\<rparr>)
     = alice\<lparr>loginAttempts := 5, lockUntil := Some 7201000, updatedAt := Some 1000\<rparr>"
proof -
  have unset: "lockUntil (alice\<lparr>loginAttempts := 4\<rparr>) = None"
    by (simp add: alice_def)
  have "failedLogin 1000 (alice\<lparr>loginAttempts := 5, lockUntil := Some 500\<rparr>)
     = alice\<lparr>loginAttempts := 1, lockUntil := None, updatedAt := Some 1000\<rparr>"
    using incLoginAttempts_effect [of "alice\<lparr>loginAttempts := 5, lockUntil := Some 500\<rparr>" 1000]
    by simp
  moreover have "failedLogin 1000 (alice\<lparr>loginAttempts := 4\<rparr>)
     = alice\<lparr>loginAttempts := 5, lockUntil := Some 7201000, updatedAt := Some 1000\<rparr>"
    using unset incLoginAttempts_effect [of "alice\<lparr>loginAttempts := 4\<rparr>" 1000]
    by (simp add: isLocked_def)
  ultimately show ?thesis by simp
qed

text \<open>
  C3. The success branch, built at the instant \<open>now\<close> and applied to any stored
  record, sets \<open>loginAttempts\<close> to 0, sets \<open>lastLogin\<close> to \<open>now\<close>, clears
  \<open>lockUntil\<close> and adds exactly 1 to \<open>accessCount\<close>. Beside these only the
  timestamp \<open>updatedAt\<close> changes, which mongoose sets to the time \<open>at\<close> of the update.
\<close>

theorem resetLoginAttempts_effect:
  "updateOne (resetLoginAttempts now) at stored =
     stored\<lparr>loginAttempts := 0, lastLogin := Some now, lockUntil := None,
       accessCount := accessCount stored + 1, updatedAt := Some at\<rparr>"
  by (simp add: resetLoginAttempts_def updateOne_def no_update_def)

text \<open>
  C9, as stated. Two failed logins run concurrently when each request reads the record
  before the other has written: both documents are the same stored record, and the
  store applies the two updates one after the other. The claim says that
  \<open>loginAttempts\<close> is then the stored count plus 2. When the record read carries a
  lock that has expired, both updates are \<open>$set: {loginAttempts: 1}\<close>, and the count
  after both is 1, where two failures in sequence leave 2.
\<close>

theorem concurrent_increments_counterexample:
  "loginAttempts (updateOne (incLoginAttempts expired_lock 1000) 1000
      (updateOne (incLoginAttempts expired_lock 1000) 1000 expired_lock)) = 1
   \<and> loginAttempts expired_lock + 2 = 7
   \<and> loginAttempts (failedLogin 1000 (failedLogin 1000 expired_lock)) = 2"
  by (simp add: expired_lock_def failedLogin_fields incLoginAttempts_def updateOne_def
      no_update_def)

lemma updateOne_relative_increment:
  assumes "lockUntil snap = None \<or> (\<exists>l. lockUntil snap = Some l \<and> now \<le> l)"
  shows "loginAttempts (updateOne (incLoginAttempts snap now) at stored)
           = loginAttempts stored + 1"
proof -
  from assms have ne: "\<not> (case lockUntil snap of None \<Rightarrow> False | Some l \<Rightarrow> l < now)"
    by (cases "lockUntil snap") auto
  show ?thesis
    unfolding incLoginAttempts_not_expired [OF ne]
    by (simp add: updateOne_def no_update_def)
qed

text \<open>
  C9, as amended. Two failed logins hold the documents \<open>snapA\<close> and \<open>snapB\<close>, read at
  any earlier moment, and neither document carries a lock that has expired at the
  instant of its attempt. Then each update is a relative increment: whatever record is
  stored when the updates arrive (at the times \<open>atA\<close> and \<open>atB\<close>), and in whichever
  order the store applies them,
  \<open>loginAttempts\<close> afterwards is the stored count plus 2.
\<close>

theorem concurrent_increments:
  assumes "lockUntil snapA = None \<or> (\<exists>l. lockUntil snapA = Some l \<and> nowA \<le> l)"
      and "lockUntil snapB = None \<or> (\<exists>l. lockUntil snapB = Some l \<and> nowB \<le> l)"
  shows "loginAttempts (updateOne (incLoginAttempts snapB nowB) atB
            (updateOne (incLoginAttempts snapA nowA) atA stored)) = loginAttempts stored + 2
       \<and> loginAttempts (updateOne (incLoginAttempts snapA nowA) atA
            (updateOne (incLoginAttempts snapB nowB) atB stored)) = loginAttempts stored + 2"
  using updateOne_relative_increment [OF assms(1)] updateOne_relative_increment [OF assms(2)]
  by simp

theorem concurrent_increments_witness:
  "loginAttempts (updateOne (incLoginAttempts alice 2000) 2000
      (updateOne (incLoginAttempts alice 1000) 1000 alice)) = 2"
proof -
  have a: "lockUntil alice = None \<or> (\<exists>l. lockUntil alice = Some l \<and> 1000 \<le> l)"
   and b: "lockUntil alice = None \<or> (\<exists>l. lockUntil alice = Some l \<and> 2000 \<le> l)"
    by (simp_all add: alice_def)
  have "loginAttempts alice = 0" by (simp add: alice_def)
  then show ?thesis
    using concurrent_increments [OF a b, of 2000 1000 alice] by simp
qed

section \<open>Properties of password verification and hashing\<close>

lemma toy_compare_malformed:
  "bcrypt_compare toy_bcrypt ''Passw0rd'' malformed_hash = Inl (Error ''Invalid salt version'')"
  by code_simp

text \<open>
  C4, as stated: \<open>comparePassword\<close> returns a boolean for every candidate and every
  stored value, and \<open>false\<close> for a malformed one. The stored value here has the length
  of a bcrypt hash and none of its structure; the library rejects it, and the \<open>catch\<close>
  block of \<open>comparePassword\<close> raises a new error instead of returning \<open>false\<close>.
\<close>

theorem comparePassword_raises_counterexample:
  "comparePassword toy_bcrypt (alice\<lparr>password := malformed_hash\<rparr>) ''Passw0rd''
     = Inl (Error ''Erreur lors de la comparaison des mots de passe'')
   \<and> comparePassword toy_bcrypt (alice\<lparr>password := malformed_hash\<rparr>) ''Passw0rd'' \<noteq> Inr False"
  using toy_compare_malformed by (simp add: comparePassword_def)

text \<open>
  C4, as amended. \<open>comparePassword\<close> returns a boolean exactly when the library's
  comparison returns one, and then the same boolean. When the library's comparison
  rejects, as it may for a stored value it cannot read as a hash, \<open>comparePassword\<close>
  raises an error whose message is fixed and says nothing of the cause; it does not
  turn the failure into \<open>false\<close>.
\<close>

theorem comparePassword_result:
  "(\<forall>b. (comparePassword lib this candidatePassword = Inr b)
        = (bcrypt_compare lib candidatePassword (password this) = Inr b)) \<and>
   ((\<exists>e. bcrypt_compare lib candidatePassword (password this) = Inl e) \<longrightarrow>
      comparePassword lib this candidatePassword
        = Inl (Error ''Erreur lors de la comparaison des mots de passe''))"
  by (cases "bcrypt_compare lib candidatePassword (password this)")
     (simp_all add: comparePassword_def)

theorem comparePassword_result_witness:
  "comparePassword toy_bcrypt (alice\<lparr>password := malformed_hash\<rparr>) ''Passw0rd''
     = Inl (Error ''Erreur lors de la comparaison des mots de passe'') \<and>
   comparePassword toy_bcrypt alice ''Passw0rd'' = Inr False"
proof -
  have "bcrypt_compare toy_bcrypt ''Passw0rd'' (password alice) = Inr False"
    by (simp add: toy_bcrypt_def alice_def)
  then show ?thesis
    using toy_compare_malformed
      comparePassword_result [of toy_bcrypt "alice\<lparr>password := malformed_hash\<rparr>" "''Passw0rd''"]
      comparePassword_result [of toy_bcrypt alice "''Passw0rd''"]
    by simp
qed

lemma timestampsPreSave_password:
  "isModified ''password'' (timestampsPreSave now this) = isModified ''password'' this"
  "password (obj (timestampsPreSave now this)) = password (obj this)"
  by (simp_all add: timestampsPreSave_def markModified_def isModified_def Let_def)

lemma save_unmodified:
  "\<not> isModified ''password'' this \<Longrightarrow>
   save lib now this =
     (if invalidated this \<noteq> [] \<or> \<not> validate (obj this) then Inl ValidationError
      else Inr (obj (timestampsPreSave now this)))"
  by (simp add: save_def preSave_def timestampsPreSave_password)

text \<open>
  C6. A save that succeeds writes the record \<open>stored\<close>. When the \<open>password\<close> path was
  modified, the stored password is what the library's \<open>hash\<close> returns for the plaintext
  and the salt that \<open>genSalt\<close> returns for the cost factor 10. When the path was not
  modified, the stored password is the one the document held, and the library is not
  called. Beside the password the stored record is the document as the hook of the
  timestamps leaves it: no other field is touched. That the stored value is not the
  plaintext rests on the library: its hash of the plaintext is not the plaintext, which
  is the first hypothesis. A hashing failure rejects the save, and then nothing is
  stored.
\<close>

theorem save_hashes_password:
  assumes lib: "\<And>salt h. bcrypt_genSalt lib 10 = Inr salt \<Longrightarrow>
                  bcrypt_hash lib (password (obj this)) salt = Inr h \<Longrightarrow>
                  h \<noteq> password (obj this)"
      and saved: "save lib now this = Inr stored"
  shows "(isModified ''password'' this \<longrightarrow>
            (\<exists>salt. bcrypt_genSalt lib 10 = Inr salt \<and>
                    bcrypt_hash lib (password (obj this)) salt = Inr (password stored)) \<and>
            password stored \<noteq> password (obj this)) \<and>
         (\<not> isModified ''password'' this \<longrightarrow> password stored = password (obj this)) \<and>
         stored = (obj (timestampsPreSave now this))\<lparr>password := password stored\<rparr>"
proof (cases "isModified ''password'' this")
  case False
  with saved have "stored = obj (timestampsPreSave now this)"
    by (simp add: save_unmodified split: if_splits)
  with False show ?thesis by (simp add: timestampsPreSave_password)
next
  case True
  define t where "t = timestampsPreSave now this"
  have tm: "isModified ''password'' t" and tp: "password (obj t) = password (obj this)"
    using True by (simp_all add: t_def timestampsPreSave_password)
  from saved obtain d where d: "preSave lib t = Inr d" and st: "stored = obj d"
    by (auto simp add: save_def t_def split: if_splits sum.splits)
  from d tm obtain salt h where
    s: "bcrypt_genSalt lib 10 = Inr salt" and
    h: "bcrypt_hash lib (password (obj t)) salt = Inr h" and
    dd: "d = t\<lparr>obj := (obj t)\<lparr>password := h\<rparr>\<rparr>"
    by (auto simp add: preSave_def split: sum.splits)
  from st dd have ps: "password stored = h" and eq: "stored = (obj t)\<lparr>password := h\<rparr>"
    by simp_all
  from lib [OF s] h tp have "h \<noteq> password (obj this)" by simp
  with True s h ps eq tp show ?thesis unfolding t_def by auto
qed

theorem save_hashes_password_witness:
  "isModified ''password'' new_password \<and>
   save toy_bcrypt 2000 new_password
     = Inr (alice\<lparr>password := ''$2a$10$N9qo8uLOickgx2ZMRZoMyePassw0rd'',
                 updatedAt := Some 2000\<rparr>) \<and>
   password (alice\<lparr>password := ''$2a$10$N9qo8uLOickgx2ZMRZoMyePassw0rd'',
                 updatedAt := Some 2000\<rparr>)
     \<noteq> password (obj new_password) \<and>
   \<not> isModified ''password''
        \<lparr>obj = alice, isNew = False, modifiedPaths = [''firstName''], invalidated = []\<rparr> \<and>
   save toy_bcrypt 2000
        \<lparr>obj = alice, isNew = False, modifiedPaths = [''firstName''], invalidated = []\<rparr>
     = Inr (alice\<lparr>updatedAt := Some 2000\<rparr>)"
proof -
  have m: "isModified ''password'' new_password"
    by (simp add: isModified_def new_password_def)
  have l1: "\<And>salt h. bcrypt_genSalt toy_bcrypt 10 = Inr salt \<Longrightarrow>
      bcrypt_hash toy_bcrypt (password (obj new_password)) salt = Inr h \<Longrightarrow>
      h \<noteq> password (obj new_password)"
    by (auto simp add: toy_bcrypt_def)
  have s1: "save toy_bcrypt 2000 new_password
     = Inr (alice\<lparr>password := ''$2a$10$N9qo8uLOickgx2ZMRZoMyePassw0rd'',
                 updatedAt := Some 2000\<rparr>)"
    by code_simp
  have n: "\<not> isModified ''password''
        \<lparr>obj = alice, isNew = False, modifiedPaths = [''firstName''], invalidated = []\<rparr>"
    by (simp add: isModified_def)
  have l2: "\<And>salt h. bcrypt_genSalt toy_bcrypt 10 = Inr salt \<Longrightarrow>
      bcrypt_hash toy_bcrypt
        (password (obj \<lparr>obj = alice, isNew = False, modifiedPaths = [''firstName''],
                          invalidated = []\<rparr>))
        salt = Inr h \<Longrightarrow>
      h \<noteq> password (obj \<lparr>obj = alice, isNew = False, modifiedPaths = [''firstName''],
                           invalidated = []\<rparr>)"
    by (auto simp add: toy_bcrypt_def)
  have s2: "save toy_bcrypt 2000
        \<lparr>obj = alice, isNew = False, modifiedPaths = [''firstName''], invalidated = []\<rparr>
      = Inr (alice\<lparr>updatedAt := Some 2000\<rparr>)"
    by code_simp
  show ?thesis
    using save_hashes_password [OF l1 s1] save_hashes_password [OF l2 s2] m n s1 s2
    by simp
qed

section \<open>Properties of the public projection\<close>

lemma toJSON_removed_keys:
  "''password'' \<notin> set (keys (toJSON u))"
  "''verificationToken'' \<notin> set (keys (toJSON u))"
  "''resetPasswordToken'' \<notin> set (keys (toJSON u))"
  "''resetPasswordExpires'' \<notin> set (keys (toJSON u))"
  "''loginAttempts'' \<notin> set (keys (toJSON u))"
  "''lockUntil'' \<notin> set (keys (toJSON u))"
  by (auto simp add: toJSON_def keys_def delete_def)

lemma toJSON_retains_code:
  "otpCode u = Some c \<Longrightarrow> (''otpCode'', JString c) \<in> set (toJSON u)"
  by (simp add: toJSON_def toObject_def delete_def property_def)

text \<open>
  C5. The claim says that the projection holds neither the OTP code nor its expiry.
  \<open>toJSON\<close> deletes six properties, and \<open>otpCode\<close> and \<open>otpExpires\<close> are not among
  them: for a record with a pending OTP the projection carries both, with their
  values.
\<close>

theorem toJSON_keeps_otp:
  "map_of (toJSON otp_user) ''otpCode'' = Some (JString ''123456'') \<and>
   map_of (toJSON otp_user) ''otpExpires'' = Some (JDate 600000)"
  by code_simp

section \<open>Properties of the Session Store\<close>

lemma step_tokens_distinct:
  assumes "distinct (map refreshToken store)"
  shows "distinct (map refreshToken (step store op))"
proof (cases op)
  case (Create s)
  with assms show ?thesis by (simp add: step_def create_def)
next
  case (Invalidate i)
  have "map refreshToken (invalidate i store) = map refreshToken store"
    by (simp add: invalidate_def map_update list_update_same_conv)
  with assms Invalidate show ?thesis by (simp add: step_def)
next
  case (InvalidateAll uid)
  have "map refreshToken (invalidateAll uid store) = map refreshToken store"
    by (simp add: invalidateAll_def)
  with assms InvalidateAll show ?thesis by (simp add: step_def)
next
  case (RemoveExpired now)
  with assms show ?thesis by (simp add: step_def removeExpired_def distinct_map_filter)
qed

lemma foldl_step_tokens_distinct:
  "distinct (map refreshToken store) \<Longrightarrow> distinct (map refreshToken (foldl step store ops))"
  by (induction ops arbitrary: store) (simp_all add: step_tokens_distinct)

lemma run_tokens_distinct: "distinct (map refreshToken (run ops))"
  by (simp add: run_def foldl_step_tokens_distinct)

lemma distinct_map_at_most_one:
  "distinct (map f xs) \<Longrightarrow> length (filter (\<lambda>x. f x = v) xs) \<le> Suc 0"
proof (induction xs)
  case Nil
  then show ?case by simp
next
  case (Cons x xs)
  show ?case
  proof (cases "f x = v")
    case True
    from Cons.prems have "f x \<notin> f ` set xs" by simp
    then have "\<forall>y\<in>set xs. f y \<noteq> f x" by (metis imageI)
    with True have "\<forall>y\<in>set xs. f y \<noteq> v" by simp
    then have "filter (\<lambda>x. f x = v) xs = []" by (simp add: filter_empty_conv)
    with True show ?thesis by simp
  next
    case False
    with Cons show ?thesis by simp
  qed
qed

text \<open>
  C7. In every state that the operations of the Session Store reach from the empty
  collection, at most one Session Record carries a given refresh-token value. Creating
  a record whose \<open>refreshToken\<close> is already stored fails with the conflict error, and
  the collection after the failed creation is the collection before it: the stored
  record is neither overwritten nor joined by a second one.
\<close>

theorem refreshToken_unique:
  "(\<forall>tok. length (filter (\<lambda>r. refreshToken r = tok) (run ops)) \<le> 1) \<and>
   (refreshToken s \<in> set (map refreshToken (run ops)) \<longrightarrow>
      create (run ops) s = Inl Conflict \<and> run (ops @ [Create s]) = run ops)"
proof (intro conjI allI impI)
  fix tok
  show "length (filter (\<lambda>r. refreshToken r = tok) (run ops)) \<le> 1"
    using distinct_map_at_most_one [OF run_tokens_distinct, of tok ops] by simp
next
  assume stored: "refreshToken s \<in> set (map refreshToken (run ops))"
  then show "create (run ops) s = Inl Conflict"
    by (simp add: create_def)
  then show "run (ops @ [Create s]) = run ops"
    by (simp add: run_def step_def)
qed

theorem refreshToken_unique_witness:
  "run [Create session1] = [session1] \<and>
   create (run [Create session1]) (session1\<lparr>userId := 2\<rparr>) = Inl Conflict \<and>
   run ([Create session1] @ [Create (session1\<lparr>userId := 2\<rparr>)]) = [session1] \<and>
   length (filter (\<lambda>r. refreshToken r = ''R1'') (run [Create session1])) = 1"
proof -
  have r: "run [Create session1] = [session1]"
    by (simp add: run_def step_def create_def)
  have "refreshToken (session1\<lparr>userId := 2\<rparr>) \<in> set (map refreshToken (run [Create session1]))"
    by (simp add: r)
  then show ?thesis
    using refreshToken_unique [of "[Create session1]" "session1\<lparr>userId := 2\<rparr>"] r
    by (simp add: session1_def)
qed

section \<open>Properties of the profile routes\<close>

lemma findById_found:
  "store uid = Some u \<Longrightarrow>
   findById store uid = Some \<lparr>obj = u, isNew = False, modifiedPaths = [], invalidated = []\<rparr>"
  by (simp add: findById_def)

lemma findById_missing: "store uid = None \<Longrightarrow> findById store uid = None"
  by (simp add: findById_def)

lemma validate_isActive: "validate (u\<lparr>isActive := v\<rparr>) = validate u"
  by (simp add: validate_def)

lemma validate_updatedAt: "validate (u\<lparr>updatedAt := v\<rparr>) = validate u"
  by (simp add: validate_def)

lemma save_loaded:
  assumes "\<not> isNew d" and "invalidated d = []" and "''password'' \<notin> set (modifiedPaths d)"
  shows "save lib now d =
     (if \<not> validate (obj d) then Inl ValidationError
      else Inr (if modifiedPaths d = [] then obj d else (obj d)\<lparr>updatedAt := Some now\<rparr>))"
proof -
  have t: "obj (timestampsPreSave now d) =
      (if modifiedPaths d = [] then obj d else (obj d)\<lparr>updatedAt := Some now\<rparr>)"
    using assms(1) by (simp add: timestampsPreSave_def markModified_def Let_def)
  have "\<not> isModified ''password'' d"
    using assms(3) by (simp add: isModified_def)
  then show ?thesis
    using assms(2) by (simp add: save_unmodified t)
qed

lemma deleteProfile_found:
  assumes "store uid = Some u"
  shows "deleteProfile lib now store uid =
     (if \<not> validate u then (Response 500 False None, store)
      else if isActive u
      then (Response 200 True None, store(uid \<mapsto> u\<lparr>isActive := False, updatedAt := Some now\<rparr>))
      else (Response 200 True None, store))"
proof -
  define d where
    "d = assign_isActive False \<lparr>obj = u, isNew = False, modifiedPaths = [], invalidated = []\<rparr>"
  have d: "d = \<lparr>obj = u\<lparr>isActive := False\<rparr>, isNew = False,
                modifiedPaths = (if isActive u then [''isActive''] else []), invalidated = []\<rparr>"
    by (simp add: d_def assign_isActive_def markModified_def isModified_def)
  have "save lib now d =
     (if \<not> validate u then Inl ValidationError
      else Inr (if isActive u then u\<lparr>isActive := False, updatedAt := Some now\<rparr> else u))"
    by (simp add: save_loaded d validate_isActive)
  moreover have "deleteProfile lib now store uid =
     (case save lib now d of Inl e \<Rightarrow> (Response 500 False None, store)
      | Inr saved \<Rightarrow> (Response 200 True None, store(uid \<mapsto> saved)))"
    by (simp add: deleteProfile_def findById_found [of store uid u, OF assms] d_def)
  moreover have "store(uid \<mapsto> u) = store"
    using assms by (simp add: map_upd_triv)
  ultimately show ?thesis by simp
qed

lemma deleteProfile_missing:
  "store uid = None \<Longrightarrow> deleteProfile lib now store uid = (Response 404 False None, store)"
  by (simp add: deleteProfile_def findById_missing)

text \<open>
  C8, as stated: every field of the record other than \<open>isActive\<close> is unchanged by the
  operation. The record of \<open>alice\<close> is active and was last updated at the instant 100.
  The operation at the instant 2000 stores \<open>isActive = false\<close> and also
  \<open>updatedAt = 2000\<close>, which the hook of \<open>timestamps: true\<close> writes when a modified
  document is saved: the stored record is not the old one with the flag cleared.
\<close>

theorem deleteProfile_timestamp_counterexample:
  "snd (deleteProfile toy_bcrypt 2000 [7 \<mapsto> alice] 7) 7
     = Some (alice\<lparr>isActive := False, updatedAt := Some 2000\<rparr>)
   \<and> alice\<lparr>isActive := False, updatedAt := Some 2000\<rparr> \<noteq> alice\<lparr>isActive := False\<rparr>
   \<and> updatedAt alice = Some 100"
proof -
  have v: "validate alice" by code_simp
  have a: "isActive alice" by (simp add: alice_def)
  have f: "[7 \<mapsto> alice] (7::nat) = Some alice" by simp
  have "snd (deleteProfile toy_bcrypt 2000 [7 \<mapsto> alice] 7) 7
     = Some (alice\<lparr>isActive := False, updatedAt := Some 2000\<rparr>)"
    using v a by (simp add: deleteProfile_found [of "[7 \<mapsto> alice]" 7 alice, OF f])
  moreover have u: "updatedAt alice = Some 100" by (simp add: alice_def)
  moreover have "alice\<lparr>isActive := False, updatedAt := Some 2000\<rparr> \<noteq> alice\<lparr>isActive := False\<rparr>"
  proof
    assume "alice\<lparr>isActive := False, updatedAt := Some 2000\<rparr> = alice\<lparr>isActive := False\<rparr>"
    then have "updatedAt (alice\<lparr>isActive := False, updatedAt := Some 2000\<rparr>)
             = updatedAt (alice\<lparr>isActive := False\<rparr>)" by (rule arg_cong)
    with u show False by simp
  qed
  ultimately show ?thesis by simp
qed

text \<open>
  C8, as amended. The delete-account operation never removes a record: the stored
  identifiers are the same after it, and no record of another user changes. When the
  user is stored and the record passes validation, the operation answers with success;
  an active record is stored again with \<open>isActive\<close> false and \<open>updatedAt\<close> the time
  of the save, every other field as it was, and an inactive record is left as it is.
  A record that validation rejects is left as it is (status 500), and so is the store
  when the user is not found (status 404).
\<close>

theorem deleteProfile_effect:
  "deleteProfile lib now store uid =
     (case store uid of
        None \<Rightarrow> (Response 404 False None, store)
      | Some u \<Rightarrow>
          if \<not> validate u then (Response 500 False None, store)
          else if isActive u
          then (Response 200 True None,
                store(uid \<mapsto> u\<lparr>isActive := False, updatedAt := Some now\<rparr>))
          else (Response 200 True None, store))
   \<and> dom (snd (deleteProfile lib now store uid)) = dom store
   \<and> (\<forall>k. k \<noteq> uid \<longrightarrow> snd (deleteProfile lib now store uid) k = store k)"
proof (cases "store uid")
  case None
  then show ?thesis by (simp add: deleteProfile_missing)
next
  case (Some u)
  have "dom (store(uid \<mapsto> u\<lparr>isActive := False, updatedAt := Some now\<rparr>)) = dom store"
    using Some by auto
  with Some show ?thesis
    by (simp add: deleteProfile_found [of store uid u, OF Some])
qed

theorem deleteProfile_effect_witness:
  "deleteProfile toy_bcrypt 2000 [7 \<mapsto> alice] 7
     = (Response 200 True None, [7 \<mapsto> alice\<lparr>isActive := False, updatedAt := Some 2000\<rparr>]) \<and>
   deleteProfile toy_bcrypt 2000 [7 \<mapsto> alice] 8 = (Response 404 False None, [7 \<mapsto> alice])"
proof -
  have v: "validate alice" by code_simp
  have a: "isActive alice" by (simp add: alice_def)
  show ?thesis
    using deleteProfile_effect [of toy_bcrypt 2000 "[7 \<mapsto> alice]" 7]
      deleteProfile_effect [of toy_bcrypt 2000 "[7 \<mapsto> alice]" 8] v a
    by simp
qed

lemma applySetters_invalid:
  "invalidated (assign_firstName None d) \<noteq> []"
  "invalidated (assign_lastName None d) \<noteq> []"
  "invalidated (assign_organization None d) \<noteq> []"
  "invalidated (assign_country None d) \<noteq> []"
  by (simp_all add: assign_firstName_def assign_lastName_def assign_organization_def
      assign_country_def invalidatePath_def)

lemma assign_keeps_invalid:
  "invalidated d \<noteq> [] \<Longrightarrow> invalidated (assign_firstName r d) \<noteq> []"
  "invalidated d \<noteq> [] \<Longrightarrow> invalidated (assign_lastName r d) \<noteq> []"
  "invalidated d \<noteq> [] \<Longrightarrow> invalidated (assign_organization r d) \<noteq> []"
  "invalidated d \<noteq> [] \<Longrightarrow> invalidated (assign_country r d) \<noteq> []"
  by (simp_all add: assign_firstName_def assign_lastName_def assign_organization_def
      assign_country_def invalidatePath_def markModified_def split: option.split)

lemma save_invalid: "invalidated d \<noteq> [] \<Longrightarrow> save lib now d = Inl ValidationError"
  by (simp add: save_def)

text \<open>
  The profile update in closed form. \<open>x1\<close> to \<open>x4\<close> are the values the four paths
  hold after the conditional assignments of the handler: the value the record held
  when the body does not carry the property, the value the setters give otherwise.
\<close>

lemma putProfile_found:
  assumes found: "store uid = Some u"
    and r1: "(case body_firstName body of None \<Rightarrow> Some (firstName u)
              | Some v \<Rightarrow> applySetters cast v) = Some x1"
    and r2: "(case body_lastName body of None \<Rightarrow> Some (lastName u)
              | Some v \<Rightarrow> applySetters cast v) = Some x2"
    and r3: "(case body_organization body of None \<Rightarrow> Some (organization u)
              | Some v \<Rightarrow> applySetters cast v) = Some x3"
    and r4: "(case body_country body of None \<Rightarrow> Some (country u)
              | Some v \<Rightarrow> applySetters cast v) = Some x4"
    and w: "w = u\<lparr>firstName := x1, lastName := x2, organization := x3, country := x4\<rparr>"
    and w': "w' = (if w = u then u else w\<lparr>updatedAt := Some now\<rparr>)"
  shows "putProfile lib cast now store uid body =
     (if \<not> validate w then (Response 500 False None, store)
      else (Response 200 True (Some (toJSON w')), store(uid \<mapsto> w')))"
proof -
  define d0 where "d0 = \<lparr>obj = u, isNew = False, modifiedPaths = [], invalidated = []\<rparr>"
  define d1 where "d1 = (case body_firstName body of None \<Rightarrow> d0
                       | Some v \<Rightarrow> assign_firstName (applySetters cast v) d0)"
  define d2 where "d2 = (case body_lastName body of None \<Rightarrow> d1
                       | Some v \<Rightarrow> assign_lastName (applySetters cast v) d1)"
  define d3 where "d3 = (case body_organization body of None \<Rightarrow> d2
                       | Some v \<Rightarrow> assign_organization (applySetters cast v) d2)"
  define d4 where "d4 = (case body_country body of None \<Rightarrow> d3
                       | Some v \<Rightarrow> assign_country (applySetters cast v) d3)"
  define m1 where "m1 = (if firstName u = x1 then [] else [''firstName''])"
  define m2 where "m2 = (if lastName u = x2 then [] else [''lastName'']) @ m1"
  define m3 where "m3 = (if organization u = x3 then [] else [''organization'']) @ m2"
  define m4 where "m4 = (if country u = x4 then [] else [''country'']) @ m3"
  have e1: "d1 = \<lparr>obj = u\<lparr>firstName := x1\<rparr>, isNew = False, modifiedPaths = m1,
                 invalidated = []\<rparr>"
    using r1 by (cases "body_firstName body")
      (auto simp add: d1_def d0_def m1_def assign_firstName_def markModified_def isModified_def)
  have e2: "d2 = \<lparr>obj = u\<lparr>firstName := x1, lastName := x2\<rparr>, isNew = False,
                 modifiedPaths = m2, invalidated = []\<rparr>"
    using r2 by (cases "body_lastName body")
      (auto simp add: d2_def e1 m2_def m1_def assign_lastName_def markModified_def isModified_def)
  have e3: "d3 = \<lparr>obj = u\<lparr>firstName := x1, lastName := x2, organization := x3\<rparr>,
                 isNew = False, modifiedPaths = m3, invalidated = []\<rparr>"
    using r3 by (cases "body_organization body")
      (auto simp add: d3_def e2 m3_def m2_def m1_def assign_organization_def markModified_def
        isModified_def)
  have e4: "d4 = \<lparr>obj = w, isNew = False, modifiedPaths = m4, invalidated = []\<rparr>"
    using r4 by (cases "body_country body")
      (auto simp add: d4_def e3 w m4_def m3_def m2_def m1_def assign_country_def markModified_def
        isModified_def)
  have same: "(m4 = []) = (w = u)"
  proof
    assume "m4 = []"
    then have "firstName u = x1 \<and> lastName u = x2 \<and> organization u = x3 \<and> country u = x4"
      by (simp add: m4_def m3_def m2_def m1_def split: if_splits)
    then show "w = u" by (simp add: w)
  next
    assume eq: "w = u"
    have "firstName w = x1" "lastName w = x2" "organization w = x3" "country w = x4"
      by (simp_all add: w)
    with eq show "m4 = []" by (simp add: m4_def m3_def m2_def m1_def)
  qed
  have nopw: "''password'' \<notin> set m4"
    by (simp add: m4_def m3_def m2_def m1_def)
  have sv: "save lib now d4 = (if \<not> validate w then Inl ValidationError else Inr w')"
    using nopw same by (simp add: save_loaded e4 w')
  have "putProfile lib cast now store uid body =
     (case save lib now d4 of Inl e \<Rightarrow> (Response 500 False None, store)
      | Inr saved \<Rightarrow> (Response 200 True (Some (toJSON saved)), store(uid \<mapsto> saved)))"
    unfolding putProfile_def findById_found [of store uid u, OF found] option.case Let_def
      d4_def d3_def d2_def d1_def d0_def
    by (rule refl)
  then show ?thesis by (simp add: sv)
qed

lemma putProfile_cast_error:
  assumes found: "store uid = Some u"
    and err: "(\<exists>v. body_firstName body = Some v \<and> applySetters cast v = None) \<or>
              (\<exists>v. body_lastName body = Some v \<and> applySetters cast v = None) \<or>
              (\<exists>v. body_organization body = Some v \<and> applySetters cast v = None) \<or>
              (\<exists>v. body_country body = Some v \<and> applySetters cast v = None)"
  shows "putProfile lib cast now store uid body = (Response 500 False None, store)"
proof -
  define d0 where "d0 = \<lparr>obj = u, isNew = False, modifiedPaths = [], invalidated = []\<rparr>"
  define d1 where "d1 = (case body_firstName body of None \<Rightarrow> d0
                       | Some v \<Rightarrow> assign_firstName (applySetters cast v) d0)"
  define d2 where "d2 = (case body_lastName body of None \<Rightarrow> d1
                       | Some v \<Rightarrow> assign_lastName (applySetters cast v) d1)"
  define d3 where "d3 = (case body_organization body of None \<Rightarrow> d2
                       | Some v \<Rightarrow> assign_organization (applySetters cast v) d2)"
  define d4 where "d4 = (case body_country body of None \<Rightarrow> d3
                       | Some v \<Rightarrow> assign_country (applySetters cast v) d3)"
  have k2: "invalidated d1 \<noteq> [] \<Longrightarrow> invalidated d2 \<noteq> []"
    by (simp add: d2_def assign_keeps_invalid split: option.split)
  have k3: "invalidated d2 \<noteq> [] \<Longrightarrow> invalidated d3 \<noteq> []"
    by (simp add: d3_def assign_keeps_invalid split: option.split)
  have k4: "invalidated d3 \<noteq> [] \<Longrightarrow> invalidated d4 \<noteq> []"
    by (simp add: d4_def assign_keeps_invalid split: option.split)
  from err have "invalidated d4 \<noteq> []"
  proof (elim disjE exE conjE)
    fix v assume "body_firstName body = Some v" "applySetters cast v = None"
    then have "invalidated d1 \<noteq> []" by (simp add: d1_def applySetters_invalid)
    then show ?thesis using k2 k3 k4 by simp
  next
    fix v assume "body_lastName body = Some v" "applySetters cast v = None"
    then have "invalidated d2 \<noteq> []" by (simp add: d2_def applySetters_invalid)
    then show ?thesis using k3 k4 by simp
  next
    fix v assume "body_organization body = Some v" "applySetters cast v = None"
    then have "invalidated d3 \<noteq> []" by (simp add: d3_def applySetters_invalid)
    then show ?thesis using k4 by simp
  next
    fix v assume "body_country body = Some v" "applySetters cast v = None"
    then show ?thesis by (simp add: d4_def applySetters_invalid)
  qed
  then have sv: "save lib now d4 = Inl ValidationError" by (rule save_invalid)
  have "putProfile lib cast now store uid body =
     (case save lib now d4 of Inl e \<Rightarrow> (Response 500 False None, store)
      | Inr saved \<Rightarrow> (Response 200 True (Some (toJSON saved)), store(uid \<mapsto> saved)))"
    unfolding putProfile_def findById_found [of store uid u, OF found] option.case Let_def
      d4_def d3_def d2_def d1_def d0_def
    by (rule refl)
  then show ?thesis by (simp add: sv)
qed

lemma putProfile_new_name:
  "putProfile toy_bcrypt toy_cast 2000 [7 \<mapsto> alice] 7 new_name
     = (Response 200 True
          (Some (toJSON (alice\<lparr>firstName := Value ''Alicia'', lastName := IsNull,
                               updatedAt := Some 2000\<rparr>))),
        [7 \<mapsto> alice\<lparr>firstName := Value ''Alicia'', lastName := IsNull,
                      updatedAt := Some 2000\<rparr>])"
proof -
  have f: "[7 \<mapsto> alice] (7::nat) = Some alice" by simp
  have r1: "(case body_firstName new_name of None \<Rightarrow> Some (firstName alice)
             | Some v \<Rightarrow> applySetters toy_cast v) = Some (Value ''Alicia'')"
    by code_simp
  have r2: "(case body_lastName new_name of None \<Rightarrow> Some (lastName alice)
             | Some v \<Rightarrow> applySetters toy_cast v) = Some IsNull"
    by code_simp
  have r3: "(case body_organization new_name of None \<Rightarrow> Some (organization alice)
             | Some v \<Rightarrow> applySetters toy_cast v) = Some Absent"
    by code_simp
  have r4: "(case body_country new_name of None \<Rightarrow> Some (country alice)
             | Some v \<Rightarrow> applySetters toy_cast v) = Some Absent"
    by code_simp
  define w where "w = alice\<lparr>firstName := Value ''Alicia'', lastName := IsNull,
                          organization := Absent, country := Absent\<rparr>"
  define w' where "w' = (if w = alice then alice else w\<lparr>updatedAt := Some 2000\<rparr>)"
  have ne: "w \<noteq> alice"
  proof
    assume "w = alice"
    then have "lastName w = lastName alice" by simp
    then show False by (simp add: w_def alice_def)
  qed
  have w2: "w' = alice\<lparr>firstName := Value ''Alicia'', lastName := IsNull,
                      updatedAt := Some 2000\<rparr>"
    using ne by (simp add: w'_def w_def alice_def)
  have v: "validate w" unfolding w_def by code_simp
  show ?thesis
    using v putProfile_found [where store = "[7 \<mapsto> alice]" and uid = 7 and u = alice
        and body = new_name and cast = toy_cast and lib = toy_bcrypt and now = 2000,
        OF f r1 r2 r3 r4 w_def w'_def]
    by (simp add: w2)
qed

text \<open>
  C10, as stated: the operation modifies at most \<open>firstName\<close>, \<open>lastName\<close>,
  \<open>organization\<close> and \<open>country\<close>. The record of \<open>alice\<close> was last updated at the
  instant 100; the body carries a new first name and \<open>null\<close> for the last name. The
  operation at the instant 2000 stores both and also \<open>updatedAt = 2000\<close>.
\<close>

theorem putProfile_timestamp_counterexample:
  "snd (putProfile toy_bcrypt toy_cast 2000 [7 \<mapsto> alice] 7 new_name) 7
     = Some (alice\<lparr>firstName := Value ''Alicia'', lastName := IsNull, updatedAt := Some 2000\<rparr>)
   \<and> updatedAt (alice\<lparr>firstName := Value ''Alicia'', lastName := IsNull,
                       updatedAt := Some 2000\<rparr>) = Some 2000
   \<and> updatedAt alice = Some 100"
  by (simp add: putProfile_new_name) (simp add: alice_def)

text \<open>
  C10, as amended. For every stored record and every request body, whatever JSON
  values it carries, the profile-update operation removes no record and changes no
  record of another user. The record of the user differs from the one before at most
  in \<open>firstName\<close>, \<open>lastName\<close>, \<open>organization\<close>, \<open>country\<close> and the timestamp
  \<open>updatedAt\<close>. Each of the four is unchanged when the body does not carry it.
  \<open>updatedAt\<close> is unchanged when none of the four changes and is the time of the save
  otherwise. The password hash, the role, the active flag, the email-verified flag, the
  counters, the lock state and the verification artifacts are the ones stored before.
  When the operation answers with success, each of the four that the body carries
  holds the value that the setters of its path give for the value of the body.
\<close>

theorem putProfile_frame:
  assumes "putProfile lib cast now store uid body = (res, store')"
  shows "dom store' = dom store \<and>
         (\<forall>k. k \<noteq> uid \<longrightarrow> store' k = store k) \<and>
         (\<forall>u. store uid = Some u \<longrightarrow>
            (\<exists>u'. store' uid = Some u' \<and>
               u' = u\<lparr>firstName := firstName u', lastName := lastName u',
                      organization := organization u', country := country u',
                      updatedAt := updatedAt u'\<rparr> \<and>
               (body_firstName body = None \<longrightarrow> firstName u' = firstName u) \<and>
               (body_lastName body = None \<longrightarrow> lastName u' = lastName u) \<and>
               (body_organization body = None \<longrightarrow> organization u' = organization u) \<and>
               (body_country body = None \<longrightarrow> country u' = country u) \<and>
               (if firstName u' = firstName u \<and> lastName u' = lastName u \<and>
                   organization u' = organization u \<and> country u' = country u
                then updatedAt u' = updatedAt u else updatedAt u' = Some now) \<and>
               password u' = password u \<and> role u' = role u \<and>
               isActive u' = isActive u \<and> emailVerified u' = emailVerified u \<and>
               loginAttempts u' = loginAttempts u \<and> loginCount u' = loginCount u \<and>
               accessCount u' = accessCount u \<and> lockUntil u' = lockUntil u \<and>
               verificationToken u' = verificationToken u \<and>
               resetPasswordToken u' = resetPasswordToken u \<and>
               resetPasswordExpires u' = resetPasswordExpires u \<and>
               otpCode u' = otpCode u \<and> otpExpires u' = otpExpires u \<and>
               (status res = 200 \<longrightarrow>
                  (\<forall>v. body_firstName body = Some v \<longrightarrow>
                       applySetters cast v = Some (firstName u')) \<and>
                  (\<forall>v. body_lastName body = Some v \<longrightarrow>
                       applySetters cast v = Some (lastName u')) \<and>
                  (\<forall>v. body_organization body = Some v \<longrightarrow>
                       applySetters cast v = Some (organization u')) \<and>
                  (\<forall>v. body_country body = Some v \<longrightarrow>
                       applySetters cast v = Some (country u')))))"
proof (cases "store uid")
  case None
  with assms have "store' = store"
    by (simp add: putProfile_def findById_missing)
  with None show ?thesis by simp
next
  case (Some u)
  let ?r1 = "case body_firstName body of None \<Rightarrow> Some (firstName u)
             | Some v \<Rightarrow> applySetters cast v"
  let ?r2 = "case body_lastName body of None \<Rightarrow> Some (lastName u)
             | Some v \<Rightarrow> applySetters cast v"
  let ?r3 = "case body_organization body of None \<Rightarrow> Some (organization u)
             | Some v \<Rightarrow> applySetters cast v"
  let ?r4 = "case body_country body of None \<Rightarrow> Some (country u)
             | Some v \<Rightarrow> applySetters cast v"
  have unchanged: ?thesis if "store' = store" "status res \<noteq> 200"
    using that Some by simp
  show ?thesis
  proof (cases "?r1 = None \<or> ?r2 = None \<or> ?r3 = None \<or> ?r4 = None")
    case True
    then have "(\<exists>v. body_firstName body = Some v \<and> applySetters cast v = None) \<or>
              (\<exists>v. body_lastName body = Some v \<and> applySetters cast v = None) \<or>
              (\<exists>v. body_organization body = Some v \<and> applySetters cast v = None) \<or>
              (\<exists>v. body_country body = Some v \<and> applySetters cast v = None)"
      by (auto split: option.splits)
    from putProfile_cast_error [where store = store and uid = uid and u = u and body = body
        and cast = cast and lib = lib and now = now, OF Some this] assms
    have "store' = store" "status res \<noteq> 200" by auto
    then show ?thesis by (rule unchanged)
  next
    case False
    then obtain x1 x2 x3 x4 where
      r1: "?r1 = Some x1" and r2: "?r2 = Some x2" and r3: "?r3 = Some x3" and r4: "?r4 = Some x4"
      by auto
    define w where "w = u\<lparr>firstName := x1, lastName := x2, organization := x3, country := x4\<rparr>"
    define w' where "w' = (if w = u then u else w\<lparr>updatedAt := Some now\<rparr>)"
    note closed = putProfile_found [where store = store and uid = uid and u = u
        and body = body and cast = cast and lib = lib and now = now,
        OF Some r1 r2 r3 r4 w_def w'_def]
    show ?thesis
    proof (cases "validate w")
      case False
      with closed assms have "store' = store" "status res \<noteq> 200" by auto
      then show ?thesis by (rule unchanged)
    next
      case True
      with closed assms have st: "store' = store(uid \<mapsto> w')" and ok: "status res = 200"
        by auto
      have same: "(firstName u = x1 \<and> lastName u = x2 \<and> organization u = x3 \<and> country u = x4)
                  = (w = u)"
      proof
        assume "firstName u = x1 \<and> lastName u = x2 \<and> organization u = x3 \<and> country u = x4"
        then show "w = u" by (simp add: w_def)
      next
        assume eq: "w = u"
        have "firstName w = x1" "lastName w = x2" "organization w = x3" "country w = x4"
          by (simp_all add: w_def)
        with eq show "firstName u = x1 \<and> lastName u = x2 \<and> organization u = x3 \<and> country u = x4"
          by simp
      qed
      have f: "firstName w' = x1" "lastName w' = x2" "organization w' = x3" "country w' = x4"
      proof -
        have "firstName w' = x1 \<and> lastName w' = x2 \<and> organization w' = x3 \<and> country w' = x4"
        proof (cases "w = u")
          case True
          with same show ?thesis by (simp add: w'_def)
        next
          case False
          then show ?thesis by (simp add: w'_def w_def)
        qed
        then show "firstName w' = x1" "lastName w' = x2" "organization w' = x3" "country w' = x4"
          by simp_all
      qed
      have frame: "w' = u\<lparr>firstName := firstName w', lastName := lastName w',
                      organization := organization w', country := country w',
                      updatedAt := updatedAt w'\<rparr>"
        by (simp add: w'_def w_def)
      have absent: "body_firstName body = None \<longrightarrow> firstName w' = firstName u"
        "body_lastName body = None \<longrightarrow> lastName w' = lastName u"
        "body_organization body = None \<longrightarrow> organization w' = organization u"
        "body_country body = None \<longrightarrow> country w' = country u"
        using r1 r2 r3 r4 by (auto simp add: f)
      have stamp: "if firstName w' = firstName u \<and> lastName w' = lastName u \<and>
                   organization w' = organization u \<and> country w' = country u
                then updatedAt w' = updatedAt u else updatedAt w' = Some now"
      proof (cases "w = u")
        case True
        then show ?thesis by (simp add: w'_def)
      next
        case False
        with same have "\<not> (firstName w' = firstName u \<and> lastName w' = lastName u \<and>
                   organization w' = organization u \<and> country w' = country u)"
          by (auto simp add: f)
        moreover from False have "updatedAt w' = Some now" by (simp add: w'_def)
        ultimately show ?thesis by auto
      qed
      have rest: "password w' = password u \<and> role w' = role u \<and>
               isActive w' = isActive u \<and> emailVerified w' = emailVerified u \<and>
               loginAttempts w' = loginAttempts u \<and> loginCount w' = loginCount u \<and>
               accessCount w' = accessCount u \<and> lockUntil w' = lockUntil u \<and>
               verificationToken w' = verificationToken u \<and>
               resetPasswordToken w' = resetPasswordToken u \<and>
               resetPasswordExpires w' = resetPasswordExpires u \<and>
               otpCode w' = otpCode u \<and> otpExpires w' = otpExpires u"
        by (simp add: w'_def w_def)
      have present: "\<forall>v. body_firstName body = Some v \<longrightarrow> applySetters cast v = Some (firstName w')"
        "\<forall>v. body_lastName body = Some v \<longrightarrow> applySetters cast v = Some (lastName w')"
        "\<forall>v. body_organization body = Some v \<longrightarrow> applySetters cast v = Some (organization w')"
        "\<forall>v. body_country body = Some v \<longrightarrow> applySetters cast v = Some (country w')"
        using r1 r2 r3 r4 by (auto simp add: f)
      from Some have d: "dom store' = dom store" unfolding st by auto
      have o: "\<forall>k. k \<noteq> uid \<longrightarrow> store' k = store k" unfolding st by simp
      have s: "store' uid = Some w'" unfolding st by simp
      show ?thesis
        using d o s frame absent stamp rest present Some by (intro conjI allI impI exI [of _ w']) simp_all
    qed
  qed
qed

theorem putProfile_frame_witness:
  "putProfile toy_bcrypt toy_cast 2000 [7 \<mapsto> alice] 7 new_name
     = (Response 200 True
          (Some (toJSON (alice\<lparr>firstName := Value ''Alicia'', lastName := IsNull,
                               updatedAt := Some 2000\<rparr>))),
        [7 \<mapsto> alice\<lparr>firstName := Value ''Alicia'', lastName := IsNull,
                      updatedAt := Some 2000\<rparr>]) \<and>
   password (alice\<lparr>firstName := Value ''Alicia'', lastName := IsNull,
                   updatedAt := Some 2000\<rparr>) = password alice \<and>
   country (alice\<lparr>firstName := Value ''Alicia'', lastName := IsNull,
                   updatedAt := Some 2000\<rparr>) = country alice"
  using putProfile_frame [OF putProfile_new_name] putProfile_new_name by simp

end
